theory Spec2Isabelle
  imports Complex_Main "HOL-Library.Sublist"
begin

section \<open>Marine eDNA workflow: depth zones, depth priors, diversity, normalization\<close>

text \<open>
  A shallow embedding of the quantitative functions of
  \<^verbatim>\<open>DAG-steps/03_taxonomic_profiling.py\<close> and
  \<^verbatim>\<open>DAG-steps/05_marine_normalization.py\<close>.

  Conventions of the embedding:
  \<^item> a Python float (and a NumPy float64) is a \<open>real\<close>: arithmetic is exact, there is
    no rounding, overflow or NaN;
  \<^item> a one-dimensional NumPy array is a \<open>real list\<close>, and an elementwise NumPy
    expression is a \<open>map\<close> of its scalar body;
  \<^item> a \<open>Dict[str, float]\<close> is an association list in insertion order (a Python dict
    keeps it), whose keys are distinct;
  \<^item> a pandas DataFrame is an association list from column name to column values;
    indexing a missing column raises \<open>KeyError\<close>;
  \<^item> a Python string is a \<open>string\<close> of 8-bit characters; \<open>str.lower\<close> acts on the
    ASCII letters.
\<close>

subsection \<open>Strings\<close>

text \<open>Python \<^verbatim>\<open>sub in s\<close> on strings: \<open>sub\<close> occurs as a contiguous substring.\<close>

fun str_in :: "string \<Rightarrow> string \<Rightarrow> bool" where
  "str_in sub [] = (sub = [])"
| "str_in sub (c # cs) = (prefix sub (c # cs) \<or> str_in sub cs)"

text \<open>Python \<^verbatim>\<open>str.lower\<close>, on the ASCII letters.\<close>

definition lower_char :: "char \<Rightarrow> char" where
  "lower_char c =
     (case map_of (zip ''ABCDEFGHIJKLMNOPQRSTUVWXYZ'' ''abcdefghijklmnopqrstuvwxyz'') c of
        Some l \<Rightarrow> l
      | None \<Rightarrow> c)"

definition lower :: "string \<Rightarrow> string" where
  "lower s = map lower_char s"

subsection \<open>Depth zones (03_taxonomic_profiling.py)\<close>

text \<open>
  \<^verbatim>\<open>
  def get_depth_zone(depth_meters):
      if depth_meters <= 200:    return "euphotic"
      elif depth_meters <= 1000: return "dysphotic"
      elif depth_meters <= 4000: return "bathypelagic"
      elif depth_meters <= 6000: return "abyssopelagic"
      else:                      return "hadalpelagic"
  \<close>
  The function has no raise statement: it returns a zone name for every number.
\<close>

definition get_depth_zone :: "real \<Rightarrow> string" where
  "get_depth_zone depth_meters =
     (if depth_meters \<le> 200 then ''euphotic''
      else if depth_meters \<le> 1000 then ''dysphotic''
      else if depth_meters \<le> 4000 then ''bathypelagic''
      else if depth_meters \<le> 6000 then ''abyssopelagic''
      else ''hadalpelagic'')"

subsection \<open>Depth priors (03_taxonomic_profiling.py)\<close>

type_synonym profile = "(string \<times> real) list"

text \<open>
  The body of the loop over the taxa of a deep zone: phototrophs are multiplied by 0.01,
  otherwise deep-adapted taxa by 1.5, every other taxon is left alone.
\<close>

definition deep_adjust :: "string \<times> real \<Rightarrow> string \<times> real" where
  "deep_adjust e =
     (let taxon = fst e; v = snd e in
      if str_in ''Prochlorococcus'' taxon \<or> str_in ''Synechococcus'' taxon
      then (taxon, v * (1 / 100))
      else if str_in ''deep'' (lower taxon) \<or> str_in ''bathy'' (lower taxon)
      then (taxon, v * (3 / 2))
      else (taxon, v))"

text \<open>The body of the loop over the taxa of the euphotic zone.\<close>

definition surface_adjust :: "string \<times> real \<Rightarrow> string \<times> real" where
  "surface_adjust e =
     (let taxon = fst e; v = snd e in
      if str_in ''Prochlorococcus'' taxon then (taxon, v * (13 / 10)) else (taxon, v))"

text \<open>
  The first half of \<^verbatim>\<open>apply_depth_priors\<close>: the copy of the assignments after the
  zone's loop has run (the value of \<^verbatim>\<open>adjusted\<close> just before the comment
  \<^verbatim>\<open># Renormalize\<close>). The \<^verbatim>\<open>config\<close> argument is never read.
\<close>

definition adjust_for_zone :: "profile \<Rightarrow> real \<Rightarrow> profile" where
  "adjust_for_zone taxonomic_assignments depth_meters =
     (let zone = get_depth_zone depth_meters in
      if zone \<in> set [''bathypelagic'', ''abyssopelagic'', ''hadalpelagic'']
      then map deep_adjust taxonomic_assignments
      else if zone = ''euphotic''
      then map surface_adjust taxonomic_assignments
      else taxonomic_assignments)"

text \<open>Python \<^verbatim>\<open>sum(d.values())\<close>.\<close>

definition sum_values :: "profile \<Rightarrow> real" where
  "sum_values p = sum_list (map snd p)"

text \<open>
  \<^verbatim>\<open>
  total = sum(adjusted.values())
  if total > 0:
      adjusted = {k: v/total for k, v in adjusted.items()}
  return adjusted
  \<close>
\<close>

definition apply_depth_priors :: "profile \<Rightarrow> real \<Rightarrow> profile" where
  "apply_depth_priors taxonomic_assignments depth_meters =
     (let adjusted = adjust_for_zone taxonomic_assignments depth_meters;
          total = sum_values adjusted in
      if total > 0 then map (\<lambda>(k, v). (k, v / total)) adjusted else adjusted)"

subsection \<open>Diversity metrics (03_taxonomic_profiling.py)\<close>

text \<open>The dictionary returned by \<^verbatim>\<open>calculate_marine_diversity\<close>: exactly these five keys.\<close>

record diversity_metrics =
  shannon :: real
  simpson :: real
  pielou_evenness :: real
  richness :: nat
  marine_specialist_ratio :: real

definition marine_specialists :: "string list" where
  "marine_specialists =
     [''SAR11'', ''Prochlorococcus'', ''SAR86'', ''Thaumarchaeota'',
      ''Marine_Group_II'', ''SAR324'', ''Roseobacter'']"

text \<open>
  \<^verbatim>\<open>
  abundances = np.array(list(taxonomic_profile.values()))
  abundances = abundances[abundances > 0]
  shannon = -np.sum(abundances * np.log(abundances))
  simpson = 1 - np.sum(abundances ** 2)
  S = len(abundances)
  pielou = shannon / np.log(S) if S > 1 else 0
  specialist_abundance = sum(abundance for taxon, abundance in taxonomic_profile.items()
                             if any(specialist in taxon for specialist in marine_specialists))
  \<close>
  The abundances are used as they come: the function does not divide them by their sum.
\<close>

definition calculate_marine_diversity :: "profile \<Rightarrow> diversity_metrics" where
  "calculate_marine_diversity taxonomic_profile =
     (let abundances = filter (\<lambda>a. a > 0) (map snd taxonomic_profile);
          shannon_v = - sum_list (map (\<lambda>a. a * ln a) abundances);
          simpson_v = 1 - sum_list (map (\<lambda>a. a ^ 2) abundances);
          S = length abundances;
          pielou = (if S > 1 then shannon_v / ln (real S) else 0);
          specialist_abundance =
            sum_list (map snd
              (filter (\<lambda>(taxon, abundance).
                         list_ex (\<lambda>specialist. str_in specialist taxon) marine_specialists)
                 taxonomic_profile))
      in \<lparr>shannon = shannon_v, simpson = simpson_v, pielou_evenness = pielou,
          richness = S, marine_specialist_ratio = specialist_abundance\<rparr>)"

subsection \<open>Correction factors (05_marine_normalization.py)\<close>

text \<open>
  The scalar body of \<^verbatim>\<open>calculate_biomass_correction\<close>:
  \<^verbatim>\<open>
  scale_factors = np.where(depths < 200, 100, 500)
  biomass_relative = np.exp(-depths / scale_factors)
  correction = 1.0 / biomass_relative
  \<close>
\<close>

definition biomass_factor :: "real \<Rightarrow> real" where
  "biomass_factor depth =
     (let scale_factor = (if depth < 200 then 100 else 500);
          biomass_relative = exp (- depth / scale_factor)
      in 1 / biomass_relative)"

definition calculate_biomass_correction :: "real list \<Rightarrow> real list" where
  "calculate_biomass_correction depths = map biomass_factor depths"

text \<open>\<^verbatim>\<open>np.clip(a, a_min, a_max)\<close> is \<^verbatim>\<open>minimum(a_max, maximum(a, a_min))\<close>.\<close>

definition clip :: "real \<Rightarrow> real \<Rightarrow> real \<Rightarrow> real" where
  "clip a a_min a_max = min a_max (max a a_min)"

text \<open>
  The scalar body of \<^verbatim>\<open>calculate_salinity_correction\<close>:
  \<^verbatim>\<open>
  optimal_salinity = 35.0
  efficiency = 1.0 - 0.02 * np.abs(salinities - optimal_salinity)
  efficiency = np.clip(efficiency, 0.7, 1.0)
  correction = 1.0 / efficiency
  \<close>
\<close>

definition salinity_factor :: "real \<Rightarrow> real" where
  "salinity_factor salinity =
     (let optimal_salinity = 35;
          efficiency = 1 - (2 / 100) * \<bar>salinity - optimal_salinity\<bar>;
          efficiency' = clip efficiency (7 / 10) 1
      in 1 / efficiency')"

definition calculate_salinity_correction :: "real list \<Rightarrow> real list" where
  "calculate_salinity_correction salinities = map salinity_factor salinities"

subsection \<open>Normalization (05_marine_normalization.py)\<close>

type_synonym data_frame = "(string \<times> real list) list"

datatype error = KeyError string

text \<open>\<^verbatim>\<open>df[name].values\<close>: the column, or \<open>KeyError\<close> when there is none.\<close>

definition column :: "data_frame \<Rightarrow> string \<Rightarrow> error + real list" where
  "column df name = (case map_of df name of None \<Rightarrow> Inl (KeyError name) | Some vs \<Rightarrow> Inr vs)"

text \<open>
  \<^verbatim>\<open>
  correction_factors = {}
  normalized = pathway_abundances.copy()
  if normalization_method in ["marine_integrated", "biomass_only"]:
      biomass_factors = calculate_biomass_correction(sample_metadata['depth_m'].values)
      correction_factors['biomass'] = biomass_factors
      # Apply correction here
  if normalization_method in ["marine_integrated", "salinity_only"]:
      salinity_factors = calculate_salinity_correction(sample_metadata['salinity_psu'].values)
      correction_factors['salinity'] = salinity_factors
      # Apply correction here
  return normalized, correction_factors
  \<close>
  Nothing is assigned to \<^verbatim>\<open>normalized\<close> after the copy; the \<^verbatim>\<open>config\<close> argument is
  never read; there is no branch for any other selector and no raise statement.
\<close>

definition normalize_marine_abundances ::
  "data_frame \<Rightarrow> data_frame \<Rightarrow> string \<Rightarrow> error + (data_frame \<times> (string \<times> real list) list)"
where
  "normalize_marine_abundances pathway_abundances sample_metadata normalization_method =
     (let correction_factors = [];
          normalized = pathway_abundances in
      case (if normalization_method \<in> set [''marine_integrated'', ''biomass_only'']
            then (case column sample_metadata ''depth_m'' of
                    Inl e \<Rightarrow> Inl e
                  | Inr depths \<Rightarrow>
                      Inr (correction_factors @ [(''biomass'', calculate_biomass_correction depths)]))
            else Inr correction_factors) of
        Inl e \<Rightarrow> Inl e
      | Inr correction_factors1 \<Rightarrow>
          (case (if normalization_method \<in> set [''marine_integrated'', ''salinity_only'']
                 then (case column sample_metadata ''salinity_psu'' of
                         Inl e \<Rightarrow> Inl e
                       | Inr salinities \<Rightarrow>
                           Inr (correction_factors1 @
                                [(''salinity'', calculate_salinity_correction salinities)]))
                 else Inr correction_factors1) of
             Inl e \<Rightarrow> Inl e
           | Inr correction_factors2 \<Rightarrow> Inr (normalized, correction_factors2)))"

text \<open>
  What the documentation of \<^verbatim>\<open>normalize_marine_abundances\<close> describes, for comparison
  with the function above: a table whose columns are the samples, every sample's abundances
  multiplied by that sample's factor.
\<close>

definition scale_samples :: "real list \<Rightarrow> data_frame \<Rightarrow> data_frame" where
  "scale_samples factors table =
     map (\<lambda>(f, (name, vals)). (name, map (\<lambda>v. v * f) vals)) (zip factors table)"

section \<open>Properties\<close>

subsection \<open>Auxiliary facts\<close>

lemma sum_list_constant_image:
  "(\<forall>a \<in> set xs. f a = c) \<Longrightarrow> sum_list (map f xs) = real (length xs) * (c::real)"
  by (induction xs) (auto simp: algebra_simps)

lemma filter_positive_all_zero:
  "\<forall>e \<in> set p. snd e = (0::real) \<Longrightarrow> filter (\<lambda>a. a > 0) (map snd p) = []"
  by (induction p) auto

lemma filter_positive_all_positive:
  "\<forall>a \<in> set xs. (0::real) < a \<Longrightarrow> filter (\<lambda>a. a > 0) xs = xs"
  by (induction xs) auto

lemma sum_selected_all_zero:
  "\<forall>e \<in> set p. snd e = (0::real) \<Longrightarrow> sum_list (map snd (filter P p)) = 0"
  by (induction p) auto

text \<open>Bounds on \<open>ln 3\<close> (about 1.0986), from the Maclaurin expansion of \<open>exp\<close>.\<close>

lemma ln_3_upper: "ln (3::real) < 11 / 10"
proof -
  obtain t where
    expansion: "exp (11 / 10 :: real)
      = (\<Sum>m<6. (11 / 10) ^ m / fact m) + (exp t / fact 6) * (11 / 10) ^ 6"
    using Maclaurin_exp_le [of "11 / 10" 6] by blast
  have "0 \<le> (exp t / fact 6) * (11 / 10 :: real) ^ 6"
    by simp
  moreover have "(3::real) < (\<Sum>m<6. (11 / 10) ^ m / fact m)"
    by (simp add: lessThan_nat_numeral lessThan_Suc fact_numeral power_divide)
  ultimately have "3 < exp (11 / 10 :: real)"
    using expansion by linarith
  then have "ln 3 < ln (exp (11 / 10 :: real))"
    by (subst ln_less_cancel_iff) simp_all
  then show ?thesis by simp
qed

lemma ln_3_lower: "1098 / 1000 < ln (3::real)"
proof -
  let ?x = "1098 / 1000 :: real"
  obtain t where bound: "\<bar>t\<bar> \<le> \<bar>?x\<bar>"
    and expansion: "exp ?x = (\<Sum>m<9. ?x ^ m / fact m) + (exp t / fact 9) * ?x ^ 9"
    using Maclaurin_exp_le [of ?x 9] by blast
  have "t \<le> 2"
    using bound by simp
  then have "exp t \<le> exp 2"
    by simp
  also have "exp (2::real) = exp 1 * exp 1"
    by (simp flip: exp_add)
  also have "\<dots> \<le> 3 * 3"
    by (intro mult_mono exp_le) simp_all
  finally have "exp t \<le> 9"
    by simp
  then have "(exp t / fact 9) * ?x ^ 9 \<le> (9 / fact 9) * ?x ^ 9"
    by (intro mult_right_mono divide_right_mono) simp_all
  moreover have "(\<Sum>m<9. ?x ^ m / fact m) + (9 / fact 9) * ?x ^ 9 < 3"
    by (simp add: lessThan_nat_numeral lessThan_Suc fact_numeral power_divide)
  ultimately have "exp ?x < 3"
    using expansion by linarith
  then have "ln (exp ?x) < ln 3"
    by (subst ln_less_cancel_iff) simp_all
  then show ?thesis by simp
qed

lemma sum_values_divide:
  "sum_values (map (\<lambda>(k, v). (k, v / t)) p) = sum_values p / t"
  by (induction p) (auto simp: sum_values_def add_divide_distrib)

text \<open>The keys of a profile survive the depth-prior adjustment, in the same order.\<close>

lemma adjust_for_zone_keys:
  "map fst (adjust_for_zone p d) = map fst p"
  by (induction p)
    (auto simp: adjust_for_zone_def deep_adjust_def surface_adjust_def Let_def)

lemma apply_depth_priors_keys:
  "map fst (apply_depth_priors p d) = map fst p"
proof -
  have "fst \<circ> (\<lambda>(k, v). (k, v / t)) = (fst :: string \<times> real \<Rightarrow> string)" for t :: real
    by (auto simp: fun_eq_iff)
  then show ?thesis
    by (simp add: apply_depth_priors_def Let_def adjust_for_zone_keys)
qed

text \<open>
  Within each of the two depth ranges the biomass correction grows with depth; the
  two ranges use different scales.
\<close>

lemma biomass_factor_mono_shallow:
  "d1 < d2 \<Longrightarrow> d2 < 200 \<Longrightarrow> biomass_factor d1 < biomass_factor d2"
  by (simp add: biomass_factor_def field_simps)

lemma biomass_factor_mono_deep:
  "200 \<le> d1 \<Longrightarrow> d1 < d2 \<Longrightarrow> biomass_factor d1 < biomass_factor d2"
  by (simp add: biomass_factor_def field_simps)

text \<open>
  The table returned by \<open>normalize_marine_abundances\<close> is always its first argument, and
  the only error it can end in is a missing metadata column.
\<close>

lemma normalize_returns_input_table:
  "normalize_marine_abundances pa md m = Inr (t, cf) \<Longrightarrow> t = pa"
  by (auto simp: normalize_marine_abundances_def Let_def split: if_splits sum.splits)

lemma normalize_error_is_key_error:
  "normalize_marine_abundances pa md m = Inl e \<Longrightarrow>
   e = KeyError ''depth_m'' \<or> e = KeyError ''salinity_psu''"
  by (auto simp: normalize_marine_abundances_def column_def Let_def
      split: if_splits sum.splits option.splits)

subsection \<open>Depth-zone classification\<close>

text \<open>
  Claim C4, as the code has it: a negative depth is not rejected. The first test of
  \<open>get_depth_zone\<close> is \<open>depth_meters \<le> 200\<close>, which every negative depth passes, so
  every depth \<open>d < 0\<close> is classified as euphotic and nothing is raised.
\<close>

theorem get_depth_zone_negative:
  "d < 0 \<Longrightarrow> get_depth_zone d = ''euphotic''"
  by (simp add: get_depth_zone_def)

theorem get_depth_zone_negative_witness:
  "(- 5 :: real) < 0 \<and> get_depth_zone (- 5) = ''euphotic''"
  using get_depth_zone_negative [of "- 5"] by simp

text \<open>
  Claim C4 as stated fails: the depth \<open>-1\<close> is given a zone.
\<close>

theorem get_depth_zone_negative_counterexample:
  "get_depth_zone (- 1) = ''euphotic''"
  by (simp add: get_depth_zone_def)

text \<open>
  Claim C5: for every depth \<open>d \<ge> 0\<close>, \<open>get_depth_zone\<close> maps \<open>d \<le> 200\<close> to euphotic,
  \<open>200 < d \<le> 1000\<close> to dysphotic, \<open>1000 < d \<le> 4000\<close> to bathypelagic,
  \<open>4000 < d \<le> 6000\<close> to abyssopelagic and \<open>d > 6000\<close> to hadalpelagic; the upper
  bound of each band belongs to the band: 200 is euphotic, 1000 dysphotic, 4000
  bathypelagic, 6000 abyssopelagic, and 6000.0001 is hadalpelagic.
\<close>

theorem get_depth_zone_bands:
  "0 \<le> d \<Longrightarrow>
     (d \<le> 200 \<longrightarrow> get_depth_zone d = ''euphotic'') \<and>
     (200 < d \<and> d \<le> 1000 \<longrightarrow> get_depth_zone d = ''dysphotic'') \<and>
     (1000 < d \<and> d \<le> 4000 \<longrightarrow> get_depth_zone d = ''bathypelagic'') \<and>
     (4000 < d \<and> d \<le> 6000 \<longrightarrow> get_depth_zone d = ''abyssopelagic'') \<and>
     (6000 < d \<longrightarrow> get_depth_zone d = ''hadalpelagic'') \<and>
     get_depth_zone 200 = ''euphotic'' \<and>
     get_depth_zone 1000 = ''dysphotic'' \<and>
     get_depth_zone 4000 = ''bathypelagic'' \<and>
     get_depth_zone 6000 = ''abyssopelagic'' \<and>
     get_depth_zone (60000001 / 10000) = ''hadalpelagic''"
  by (simp add: get_depth_zone_def)

text \<open>The five depths of \<^verbatim>\<open>test_depth_zones\<close>, one in each band.\<close>

theorem get_depth_zone_bands_witness:
  "(0::real) \<le> 50 \<and> (50::real) \<le> 200 \<and> get_depth_zone 50 = ''euphotic'' \<and>
   (0::real) \<le> 500 \<and> (200::real) < 500 \<and> (500::real) \<le> 1000 \<and>
     get_depth_zone 500 = ''dysphotic'' \<and>
   (0::real) \<le> 2000 \<and> (1000::real) < 2000 \<and> (2000::real) \<le> 4000 \<and>
     get_depth_zone 2000 = ''bathypelagic'' \<and>
   (0::real) \<le> 5000 \<and> (4000::real) < 5000 \<and> (5000::real) \<le> 6000 \<and>
     get_depth_zone 5000 = ''abyssopelagic'' \<and>
   (0::real) \<le> 8000 \<and> (6000::real) < 8000 \<and> get_depth_zone 8000 = ''hadalpelagic''"
  using get_depth_zone_bands [of 50] get_depth_zone_bands [of 500]
    get_depth_zone_bands [of 2000] get_depth_zone_bands [of 5000]
    get_depth_zone_bands [of 8000]
  by simp

subsection \<open>Depth priors\<close>

text \<open>
  Claim C9: for every input profile and every depth, when the sum of the adjusted
  abundances is positive the profile returned by \<open>apply_depth_priors\<close> sums to 1; when that
  sum is exactly 0 renormalization is skipped and the adjusted profile is returned as it is.
\<close>

theorem apply_depth_priors_sum:
  "(0 < sum_values (adjust_for_zone p d) \<longrightarrow> sum_values (apply_depth_priors p d) = 1) \<and>
   (sum_values (adjust_for_zone p d) = 0 \<longrightarrow> apply_depth_priors p d = adjust_for_zone p d)"
  by (simp add: apply_depth_priors_def Let_def sum_values_divide)

text \<open>
  A deep sample (2000 m) with a phototroph, a deep-adapted taxon and a neutral one: the
  adjusted abundances are 1/200, 3/8 and 1/4, and the result sums to 1. An all-zero
  profile at 500 m comes back unchanged.
\<close>

theorem apply_depth_priors_sum_witness:
  "adjust_for_zone
     [(''Prochlorococcus_marinus'', 1 / 2), (''Deep_SAR324'', 1 / 4), (''Vibrio'', 1 / 4)] 2000
     = [(''Prochlorococcus_marinus'', 1 / 200), (''Deep_SAR324'', 3 / 8), (''Vibrio'', 1 / 4)] \<and>
   0 < sum_values (adjust_for_zone
     [(''Prochlorococcus_marinus'', 1 / 2), (''Deep_SAR324'', 1 / 4), (''Vibrio'', 1 / 4)] 2000) \<and>
   sum_values (apply_depth_priors
     [(''Prochlorococcus_marinus'', 1 / 2), (''Deep_SAR324'', 1 / 4), (''Vibrio'', 1 / 4)] 2000) = 1 \<and>
   sum_values (adjust_for_zone [(''SAR11'', 0), (''Vibrio'', 0)] 500) = 0 \<and>
   apply_depth_priors [(''SAR11'', 0), (''Vibrio'', 0)] 500 = [(''SAR11'', 0), (''Vibrio'', 0)]"
  using
    apply_depth_priors_sum
      [of "[(''Prochlorococcus_marinus'', 1 / 2), (''Deep_SAR324'', 1 / 4), (''Vibrio'', 1 / 4)]" 2000]
    apply_depth_priors_sum [of "[(''SAR11'', 0), (''Vibrio'', 0)]" 500]
  by (simp add: adjust_for_zone_def get_depth_zone_def deep_adjust_def lower_def lower_char_def
      sum_values_def)

subsection \<open>Diversity metrics\<close>

text \<open>
  Claim C7, as the code has it: for the empty profile, and for every profile whose
  abundances are all zero, \<open>calculate_marine_diversity\<close> raises nothing and returns
  richness 0, Shannon 0, Pielou evenness 0 and specialist ratio 0, but Simpson 1 (one minus
  an empty sum). The result has the five metrics only: no field marks it as "no data".
\<close>

theorem diversity_empty:
  "\<forall>e \<in> set p. snd e = 0 \<Longrightarrow>
   calculate_marine_diversity p =
     \<lparr>shannon = 0, simpson = 1, pielou_evenness = 0, richness = 0,
      marine_specialist_ratio = 0\<rparr>"
  by (simp add: calculate_marine_diversity_def filter_positive_all_zero sum_selected_all_zero)

theorem diversity_empty_witness:
  "snd (''SAR11'', 0 :: real) = 0 \<and> snd (''Vibrio'', 0 :: real) = 0 \<and>
   calculate_marine_diversity [(''SAR11'', 0), (''Vibrio'', 0)] =
     \<lparr>shannon = 0, simpson = 1, pielou_evenness = 0, richness = 0,
      marine_specialist_ratio = 0\<rparr> \<and>
   calculate_marine_diversity [] =
     \<lparr>shannon = 0, simpson = 1, pielou_evenness = 0, richness = 0,
      marine_specialist_ratio = 0\<rparr>"
  using diversity_empty [of "[(''SAR11'', 0), (''Vibrio'', 0)]"] diversity_empty [of "[]"]
  by simp

text \<open>
  Claim C7 as stated fails: on the empty profile the Simpson index is 1, not 0.
\<close>

theorem diversity_empty_counterexample:
  "simpson (calculate_marine_diversity []) = 1 \<and> simpson (calculate_marine_diversity []) \<noteq> 0"
  by (simp add: calculate_marine_diversity_def)

text \<open>
  With exact arithmetic, a profile of \<open>n > 1\<close> taxa that all have abundance \<open>1 / n\<close> has
  Shannon diversity \<open>ln n\<close> and Pielou evenness 1.
\<close>

lemma equal_abundances_exact:
  assumes n: "1 < n" and len: "length p = n" and eq: "\<forall>e \<in> set p. snd e = 1 / real n"
  shows "shannon (calculate_marine_diversity p) = ln (real n)"
    and "pielou_evenness (calculate_marine_diversity p) = 1"
    and "richness (calculate_marine_diversity p) = n"
proof -
  let ?xs = "map snd p"
  have pos: "\<forall>a \<in> set ?xs. 0 < a"
    using n eq by auto
  have kept: "filter (\<lambda>a. a > 0) ?xs = ?xs"
    by (rule filter_positive_all_positive [OF pos])
  have "\<forall>a \<in> set ?xs. a * ln a = (1 / real n) * ln (1 / real n)"
    using eq by auto
  then have "sum_list (map (\<lambda>a. a * ln a) ?xs)
      = real (length ?xs) * ((1 / real n) * ln (1 / real n))"
    by (rule sum_list_constant_image)
  also have "\<dots> = ln (1 / real n)"
    using n len by simp
  also have "\<dots> = - ln (real n)"
    using n by (simp add: ln_div)
  finally have entropy: "sum_list (map (\<lambda>a. a * ln a) ?xs) = - ln (real n)" .
  have nonzero: "ln (real n) \<noteq> 0"
    using n by simp
  show "shannon (calculate_marine_diversity p) = ln (real n)"
    using entropy kept by (simp add: calculate_marine_diversity_def Let_def)
  show "pielou_evenness (calculate_marine_diversity p) = 1"
    using entropy kept nonzero n len by (simp add: calculate_marine_diversity_def Let_def)
  show "richness (calculate_marine_diversity p) = n"
    using kept len by (simp add: calculate_marine_diversity_def Let_def)
qed

text \<open>
  Claim C8, as the code has it: for every profile of \<open>n > 1\<close> taxa whose abundances are all
  equal to \<open>1 / n\<close> (a normalized profile; the function takes the abundances as relative
  abundances and does not divide them by their total), \<open>calculate_marine_diversity\<close>
  returns Pielou evenness 1.0 within floating tolerance, Shannon diversity \<open>ln n\<close> within
  floating tolerance, and richness \<open>n\<close>. The tolerance is a parameter of the statement:
  the evenness and the Shannon value of the model lie within every positive distance of 1
  and of \<open>ln n\<close>. (The model computes on reals; the rounding of the float64 operations,
  which puts the evenness of \<open>{A: 1/3, B: 1/3, C: 1/3}\<close> at 0.9999999999999998, is not
  part of it.)
\<close>

theorem diversity_equal_normalized:
  assumes "1 < n" and "length p = n" and "\<forall>e \<in> set p. snd e = 1 / real n"
    and "0 < tol"
  shows "\<bar>pielou_evenness (calculate_marine_diversity p) - 1\<bar> < tol \<and>
         \<bar>shannon (calculate_marine_diversity p) - ln (real n)\<bar> < tol \<and>
         richness (calculate_marine_diversity p) = n"
  using assms equal_abundances_exact [of n p] by simp

text \<open>
  The profile \<open>{A: 1/3, B: 1/3, C: 1/3}\<close> with tolerance \<open>10\<^sup>-\<^sup>9\<close>: richness 3, evenness
  within the tolerance of 1, Shannon within the tolerance of \<open>ln 3\<close> and within 0.01 of
  1.099.
\<close>

theorem diversity_equal_normalized_witness:
  "(1::nat) < 3 \<and> length [(''A'', 1 / 3 :: real), (''B'', 1 / 3), (''C'', 1 / 3)] = 3 \<and>
   snd (''A'', 1 / 3 :: real) = 1 / real (3::nat) \<and>
   (0::real) < 1 / 1000000000 \<and>
   \<bar>pielou_evenness (calculate_marine_diversity [(''A'', 1 / 3), (''B'', 1 / 3), (''C'', 1 / 3)])
      - 1\<bar> < 1 / 1000000000 \<and>
   \<bar>shannon (calculate_marine_diversity [(''A'', 1 / 3), (''B'', 1 / 3), (''C'', 1 / 3)])
      - ln 3\<bar> < 1 / 1000000000 \<and>
   \<bar>shannon (calculate_marine_diversity [(''A'', 1 / 3), (''B'', 1 / 3), (''C'', 1 / 3)])
      - 1099 / 1000\<bar> < 1 / 100 \<and>
   richness (calculate_marine_diversity [(''A'', 1 / 3), (''B'', 1 / 3), (''C'', 1 / 3)]) = 3"
proof -
  let ?p = "[(''A'', 1 / 3 :: real), (''B'', 1 / 3), (''C'', 1 / 3)]"
  have within:
    "\<bar>pielou_evenness (calculate_marine_diversity ?p) - 1\<bar> < 1 / 1000000000 \<and>
     \<bar>shannon (calculate_marine_diversity ?p) - ln (real (3::nat))\<bar> < 1 / 1000000000 \<and>
     richness (calculate_marine_diversity ?p) = 3"
    by (rule diversity_equal_normalized [of 3 ?p "1 / 1000000000"]) simp_all
  then have near: "\<bar>shannon (calculate_marine_diversity ?p) - ln 3\<bar> < 1 / 1000000000"
    by simp
  have "\<bar>shannon (calculate_marine_diversity ?p) - 1099 / 1000\<bar> < 1 / 100"
    using near ln_3_upper ln_3_lower by linarith
  with within show ?thesis
    by simp
qed

text \<open>
  Claim C8 as stated fails on its own example: for \<open>{A: 100, B: 100, C: 100}\<close> the richness
  is 3, but the Shannon value is \<open>- 300 ln 100\<close> and the evenness \<open>- 300 ln 100 / ln 3\<close>,
  both negative.
\<close>

theorem diversity_equal_counts_counterexample:
  "richness (calculate_marine_diversity [(''A'', 100), (''B'', 100), (''C'', 100)]) = 3 \<and>
   shannon (calculate_marine_diversity [(''A'', 100), (''B'', 100), (''C'', 100)])
     = - (300 * ln 100) \<and>
   pielou_evenness (calculate_marine_diversity [(''A'', 100), (''B'', 100), (''C'', 100)])
     = - (300 * ln 100) / ln 3 \<and>
   shannon (calculate_marine_diversity [(''A'', 100), (''B'', 100), (''C'', 100)]) < 0 \<and>
   pielou_evenness (calculate_marine_diversity [(''A'', 100), (''B'', 100), (''C'', 100)]) < 0"
  by (simp add: calculate_marine_diversity_def divide_neg_pos)

subsection \<open>Correction factors\<close>

text \<open>
  Claim C2, as the code has it: for every depth \<open>d \<ge> 0\<close> the biomass correction factor
  equals \<open>1 / exp (- d / scale)\<close>, with scale 100 when \<open>d < 200\<close> and 500 otherwise. The
  relative biomass is taken relative to the surface, without the constant 100: at
  \<open>d = 0\<close> the relative biomass is exactly 1 and the correction factor is 1.
\<close>

theorem biomass_correction_formula:
  "\<forall>d \<in> set depths. 0 \<le> d \<Longrightarrow>
   calculate_biomass_correction depths
     = map (\<lambda>d. 1 / exp (- d / (if d < 200 then 100 else 500))) depths \<and>
   calculate_biomass_correction [0] = [1]"
  by (simp add: calculate_biomass_correction_def biomass_factor_def)

theorem biomass_correction_formula_witness:
  "(0::real) \<le> 50 \<and> (0::real) \<le> 1000 \<and>
   calculate_biomass_correction [50, 1000] = [1 / exp (- (1 / 2)), 1 / exp (- 2)]"
  using biomass_correction_formula [of "[50, 1000]"] by simp

text \<open>
  Claim C2 as stated fails at the surface: the factor at depth 0 is 1, while the claimed
  formula \<open>1 / (100 * exp (- d / scale))\<close> gives \<open>1 / 100\<close>.
\<close>

theorem biomass_correction_surface_counterexample:
  "calculate_biomass_correction [0] = [1] \<and>
   calculate_biomass_correction [0] \<noteq> [1 / (100 * exp (- 0 / 100))]"
  by (simp add: calculate_biomass_correction_def biomass_factor_def)

text \<open>
  Claim C6 evaluated on the code: the biomass correction factor is not increasing across
  the 200 m boundary. At 100 m the factor is \<open>1 / exp (- 1)\<close>, about 2.72; at 200 m, where
  the scale changes from 100 to 500, it is \<open>1 / exp (- 2 / 5)\<close>, about 1.49: the deeper
  sample gets the smaller factor.
\<close>

theorem biomass_correction_drops_at_200:
  "calculate_biomass_correction [100, 200] = [1 / exp (- 1), 1 / exp (- (2 / 5))] \<and>
   calculate_biomass_correction [100, 200] ! 1 < calculate_biomass_correction [100, 200] ! 0"
  by (simp add: calculate_biomass_correction_def biomass_factor_def field_simps)

text \<open>
  Claim C10: the salinity correction factor is one over the efficiency
  \<open>1 - 0.02 * |salinity - 35|\<close> clipped to \<open>[0.7, 1.0]\<close>, and it is symmetric around
  35 PSU: the factors of \<open>35 + x\<close> and of \<open>35 - x\<close> are equal, for every \<open>x\<close>.
\<close>

theorem salinity_correction_symmetric:
  "calculate_salinity_correction salinities
     = map (\<lambda>s. 1 / min 1.0 (max (1 - 0.02 * \<bar>s - 35\<bar>) 0.7)) salinities \<and>
   calculate_salinity_correction (map (\<lambda>x. 35 + x) xs)
     = calculate_salinity_correction (map (\<lambda>x. 35 - x) xs) \<and>
   salinity_factor (35 + x) = salinity_factor (35 - x)"
  by (simp add: calculate_salinity_correction_def salinity_factor_def clip_def)

subsection \<open>Normalization\<close>

text \<open>
  Claim C1 evaluated on the code: the correction factors are computed but never
  multiplied into the table. For one sample with abundance 2, depth 0 m and salinity
  45 PSU, under \<open>marine_integrated\<close>, the biomass factor is 1 and the salinity factor 5/4,
  so the documented result is the abundance 5/2; the function returns the abundance 2.
  The same holds under \<open>salinity_only\<close>.
\<close>

theorem normalize_leaves_table_unscaled:
  "normalize_marine_abundances [(''S1'', [2])]
       [(''depth_m'', [0]), (''salinity_psu'', [45])] ''marine_integrated''
     = Inr ([(''S1'', [2])], [(''biomass'', [1]), (''salinity'', [5 / 4])]) \<and>
   scale_samples (map (\<lambda>(b, s). b * s) (zip [1] [5 / 4])) [(''S1'', [2])] = [(''S1'', [5 / 2])] \<and>
   normalize_marine_abundances [(''S1'', [2])]
       [(''depth_m'', [0]), (''salinity_psu'', [45])] ''salinity_only''
     = Inr ([(''S1'', [2])], [(''salinity'', [5 / 4])]) \<and>
   scale_samples [5 / 4] [(''S1'', [2])] = [(''S1'', [5 / 2])] \<and>
   [(''S1'', [2 :: real])] \<noteq> [(''S1'', [5 / 2])]"
  by (simp add: normalize_marine_abundances_def column_def calculate_biomass_correction_def
      biomass_factor_def calculate_salinity_correction_def salinity_factor_def clip_def
      scale_samples_def)

text \<open>
  Claim C3, as the code has it: \<open>normalize_marine_abundances\<close> does not validate its
  selector. For every string other than the four documented values it raises nothing and
  returns the table as it was given, with an empty dictionary of correction factors.
\<close>

theorem normalize_unknown_selector_returns:
  "m \<notin> {''marine_integrated'', ''biomass_only'', ''salinity_only'', ''temperature_only''} \<Longrightarrow>
   normalize_marine_abundances pa md m = Inr (pa, [])"
  by (simp add: normalize_marine_abundances_def)

theorem normalize_unknown_selector_returns_witness:
  "''integrated'' \<notin> {''marine_integrated'', ''biomass_only'', ''salinity_only'',
      ''temperature_only''} \<and>
   normalize_marine_abundances [(''S1'', [2])] [] ''integrated'' = Inr ([(''S1'', [2])], [])"
  using normalize_unknown_selector_returns [of "''integrated''" "[(''S1'', [2])]" "[]"]
  by simp

text \<open>
  Claim C3 as stated fails: the selector \<open>bogus\<close> is none of the four documented values,
  and the call returns a result.
\<close>

theorem normalize_unknown_selector_counterexample:
  "normalize_marine_abundances [(''S1'', [2])]
       [(''depth_m'', [100]), (''salinity_psu'', [35])] ''bogus''
     = Inr ([(''S1'', [2])], [])"
  by (simp add: normalize_marine_abundances_def)

end
